theory Spec2Isabelle
  imports Main
begin

section \<open>Compile-time evaluation of pure functions (cmd/compile/internal/walk/pure\_eval.go)\<close>

subsection \<open>Constants, types and nodes\<close>

text \<open>
  Modelled from the spec: package go/constant is not under src/. A constant value is a
  tagged union; \<open>Kind\<close> is its tag, \<open>StringVal\<close> and \<open>BoolVal\<close> read the payload
  of a String and of a Bool value. A Float value is represented by the text its
  \<open>String\<close> method returns (its "source-level textual rendering"); floating point
  itself is outside the model. Unknown and Complex are the kinds the code does not support.
  The kinds carry the suffix Kind, since \<open>Int\<close> and \<open>String\<close> are taken in HOL.
\<close>

datatype ConstKind = UnknownKind | BoolKind | StringKind | IntKind | FloatKind | ComplexKind

datatype Value =
    MakeUnknown
  | MakeBool bool
  | MakeString string
  | MakeInt int
  | MakeFloat string
  | MakeComplex string

fun Kind :: "Value \<Rightarrow> ConstKind" where
  "Kind MakeUnknown = UnknownKind"
| "Kind (MakeBool b) = BoolKind"
| "Kind (MakeString s) = StringKind"
| "Kind (MakeInt i) = IntKind"
| "Kind (MakeFloat t) = FloatKind"
| "Kind (MakeComplex t) = ComplexKind"

text \<open>
  Modelled from the spec: package cmd/compile/internal/types is not under src/. A type is
  identified with its kind (types.Kind); a defined type has the kind of its underlying
  type. \<open>IsString\<close>, \<open>IsInteger\<close>, \<open>IsFloat\<close> and \<open>IsBoolean\<close> are the four
  methods the code calls.
\<close>

datatype Type =
    TINT8 | TUINT8 | TINT16 | TUINT16 | TINT32 | TUINT32 | TINT64 | TUINT64
  | TINT | TUINT | TUINTPTR
  | TCOMPLEX64 | TCOMPLEX128
  | TFLOAT32 | TFLOAT64
  | TBOOL
  | TPTR | TFUNC | TSLICE | TARRAY | TSTRUCT | TCHAN | TMAP | TINTER
  | TSTRING
  | TUNSAFEPTR

definition IsString :: "Type \<Rightarrow> bool" where
  "IsString t = (t = TSTRING)"

definition IsInteger :: "Type \<Rightarrow> bool" where
  "IsInteger t = (t \<in> {TINT8, TUINT8, TINT16, TUINT16, TINT32, TUINT32, TINT64, TUINT64,
                        TINT, TUINT, TUINTPTR})"

definition IsFloat :: "Type \<Rightarrow> bool" where
  "IsFloat t = (t = TFLOAT32 \<or> t = TFLOAT64)"

definition IsBoolean :: "Type \<Rightarrow> bool" where
  "IsBoolean t = (t = TBOOL)"

record Field =
  Type :: Type

text \<open>
  Modelled from the spec: package cmd/compile/internal/ir is not under src/. \<open>Op\<close> tells a
  literal from the other argument expressions (a variable, a call, nil, a conversion);
  the code asks only whether it is \<open>OLITERAL\<close>. \<open>Val\<close> is defined on literals alone: on
  any other node it panics, here the value None.
\<close>

datatype Op = OLITERAL | ONAME | OCALLFUNC | ONIL | OCONVIFACE

record Node =
  Op :: Op
  Pos :: nat
  Lit :: Value
  NType :: Type
  Typecheck :: nat

definition Val :: "Node \<Rightarrow> Value option" where
  "Val n = (if Op n = OLITERAL then Some (Lit n) else None)"

subsection \<open>allArgsConstant\<close>

text \<open>
  The body of the loop of \<open>allArgsConstant\<close> for one argument and its parameter: True
  when the loop goes on to the next argument, False when it returns false.
\<close>

definition argOK :: "Node \<Rightarrow> Field \<Rightarrow> bool" where
  "argOK arg param =
     (if Op arg \<noteq> OLITERAL then False
      else let kind = Kind (Lit arg) in
        if \<not> (kind = StringKind \<or> kind = IntKind \<or> kind = FloatKind \<or> kind = BoolKind) then False
        else if IsString (Type param) \<and> kind \<noteq> StringKind then False
        else if IsInteger (Type param) \<and> kind \<noteq> IntKind then False
        else if IsFloat (Type param) \<and> kind \<noteq> FloatKind then False
        else if IsBoolean (Type param) \<and> kind \<noteq> BoolKind then False
        else True)"

text \<open>
  The loop reads \<open>paramTypes[i]\<close>; the length test before it rules out the second
  equation, where the index would be out of range.
\<close>

fun allArgsLoop :: "Node list \<Rightarrow> Field list \<Rightarrow> bool" where
  "allArgsLoop [] ps = True"
| "allArgsLoop (arg # args) [] = False"
| "allArgsLoop (arg # args) (param # ps) = (if argOK arg param then allArgsLoop args ps else False)"

definition allArgsConstant :: "Node list \<Rightarrow> Field list \<Rightarrow> bool" where
  "allArgsConstant args paramTypes =
     (if length args \<noteq> length paramTypes then False else allArgsLoop args paramTypes)"

subsection \<open>Library functions the code calls\<close>

text \<open>
  Modelled from the spec: the packages unicode/utf8, strconv, fmt, strings and path/filepath
  are not under src/. A Go string is a sequence of bytes, here a \<open>string\<close>; a rune is a
  \<open>nat\<close>. Masks and shifts of the library are written as \<open>mod\<close>, \<open>div\<close> and
  multiplication by powers of two.
\<close>

definition RuneError :: nat where
  "RuneError = 0xFFFD"

definition ValidRune :: "nat \<Rightarrow> bool" where
  "ValidRune r = (r < 0xD800 \<or> (0xDFFF < r \<and> r \<le> 0x10FFFF))"

definition DecodeRuneInString :: "string \<Rightarrow> nat \<times> nat" where
  "DecodeRuneInString s =
     (if length s < 1 then (RuneError, 0)
      else let s0 = (of_char (s ! 0) :: nat) in
        if s0 < 0x80 then (s0, 1)
        else if s0 < 0xC2 \<or> 0xF4 < s0 then (RuneError, 1)
        else let sz = (if s0 < 0xE0 then 2 else if s0 < 0xF0 then 3 else (4::nat));
                 lo = (if s0 = 0xE0 then 0xA0 else if s0 = 0xF0 then 0x90 else (0x80::nat));
                 hi = (if s0 = 0xED then 0x9F else if s0 = 0xF4 then 0x8F else (0xBF::nat))
          in if length s < sz then (RuneError, 1)
          else let s1 = (of_char (s ! 1) :: nat) in
            if s1 < lo \<or> hi < s1 then (RuneError, 1)
            else if sz \<le> 2 then ((s0 mod 32) * 64 + s1 mod 64, 2)
            else let s2 = (of_char (s ! 2) :: nat) in
              if s2 < 0x80 \<or> 0xBF < s2 then (RuneError, 1)
              else if sz \<le> 3 then ((s0 mod 16) * 4096 + (s1 mod 64) * 64 + s2 mod 64, 3)
              else let s3 = (of_char (s ! 3) :: nat) in
                if s3 < 0x80 \<or> 0xBF < s3 then (RuneError, 1)
                else ((s0 mod 8) * 262144 + (s1 mod 64) * 4096 + (s2 mod 64) * 64 + s3 mod 64, 4))"

definition AppendRune :: "nat \<Rightarrow> string" where
  "AppendRune r =
     (if r \<le> 0x7F then [char_of r]
      else if r \<le> 0x7FF then [char_of (0xC0 + r div 64), char_of (0x80 + r mod 64)]
      else if r > 0x10FFFF \<or> (0xD800 \<le> r \<and> r \<le> 0xDFFF)
        then [char_of (0xEF::nat), char_of (0xBF::nat), char_of (0xBD::nat)]
      else if r \<le> 0xFFFF
        then [char_of (0xE0 + r div 4096), char_of (0x80 + (r div 64) mod 64), char_of (0x80 + r mod 64)]
      else [char_of (0xF0 + r div 262144), char_of (0x80 + (r div 4096) mod 64),
            char_of (0x80 + (r div 64) mod 64), char_of (0x80 + r mod 64)])"

text \<open>
  \<open>strconv.IsPrint\<close>: Latin-1 is decided by comparisons, the other runes by the
  package's tables, which are a parameter \<open>tab\<close> here.
\<close>

definition IsPrint :: "(nat \<Rightarrow> bool) \<Rightarrow> nat \<Rightarrow> bool" where
  "IsPrint tab r =
     (if r \<le> 0xFF then
        (if 0x20 \<le> r \<and> r \<le> 0x7E then True
         else if 0xA1 \<le> r \<and> r \<le> 0xFF then r \<noteq> 0xAD
         else False)
      else tab r)"

definition lowerhex :: "nat \<Rightarrow> char" where
  "lowerhex d = ''0123456789abcdef'' ! d"

definition backslash :: char where
  "backslash = CHR 0x5C"

definition dquote :: char where
  "dquote = CHR 0x22"

definition newline :: char where
  "newline = CHR 0x0A"

definition appendEscapedRune :: "(nat \<Rightarrow> bool) \<Rightarrow> nat \<Rightarrow> string" where
  "appendEscapedRune tab r =
     (if r = of_char dquote \<or> r = of_char backslash then [backslash, char_of r]
      else if IsPrint tab r then AppendRune r
      else if r = 0x07 then [backslash, CHR ''a'']
      else if r = 0x08 then [backslash, CHR ''b'']
      else if r = 0x0C then [backslash, CHR ''f'']
      else if r = 0x0A then [backslash, CHR ''n'']
      else if r = 0x0D then [backslash, CHR ''r'']
      else if r = 0x09 then [backslash, CHR ''t'']
      else if r = 0x0B then [backslash, CHR ''v'']
      else if r < 0x20 \<or> r = 0x7F
        then [backslash, CHR ''x'', lowerhex (r div 16), lowerhex (r mod 16)]
      else let r' = (if \<not> ValidRune r then 0xFFFD else r) in
        if \<not> ValidRune r \<or> r < 0x10000
        then [backslash, CHR ''u''] @ map (\<lambda>sh. lowerhex ((r' div 2 ^ sh) mod 16)) [12, 8, 4, 0]
        else [backslash, CHR ''U''] @
             map (\<lambda>sh. lowerhex ((r' div 2 ^ sh) mod 16)) [28, 24, 20, 16, 12, 8, 4, 0])"

text \<open>
  The loop of \<open>strconv.appendQuotedWith\<close>, between the two quotes: \<open>quoteStep\<close> is
  what one round appends for the rune at the head of \<open>s\<close>, and the loop goes on after
  the bytes of that rune.
\<close>

definition quoteStep :: "(nat \<Rightarrow> bool) \<Rightarrow> string \<Rightarrow> string" where
  "quoteStep tab s =
     (let r = fst (DecodeRuneInString s); width = snd (DecodeRuneInString s) in
      if width = 1 \<and> r = RuneError
      then [backslash, CHR ''x'', lowerhex (of_char (s ! 0) div 16), lowerhex (of_char (s ! 0) mod 16)]
      else appendEscapedRune tab r)"

function appendQuotedLoop :: "(nat \<Rightarrow> bool) \<Rightarrow> string \<Rightarrow> string" where
  "appendQuotedLoop tab s =
     (if s = [] then []
      else quoteStep tab s @ appendQuotedLoop tab (drop (snd (DecodeRuneInString s)) s))"
  by pat_completeness auto
termination
proof (relation "measure (\<lambda>(tab, s). length s)")
  show "wf (measure (\<lambda>(tab, s). length s))" by simp
next
  fix tab :: "nat \<Rightarrow> bool" and s :: string
  assume "s \<noteq> []"
  then have "1 \<le> snd (DecodeRuneInString s)"
    by (cases s) (simp_all add: DecodeRuneInString_def Let_def)
  with \<open>s \<noteq> []\<close>
  show "((tab, drop (snd (DecodeRuneInString s)) s), (tab, s)) \<in> measure (\<lambda>(tab, s). length s)"
    by (cases s) simp_all
qed

text \<open>\<open>strconv.Quote\<close>, which is what the verb \<open>%q\<close> of \<open>fmt.Sprintf\<close> applies to a string.\<close>

definition Quote :: "(nat \<Rightarrow> bool) \<Rightarrow> string \<Rightarrow> string" where
  "Quote tab s = [dquote] @ appendQuotedLoop tab s @ [dquote]"

text \<open>
  \<open>strconv.Unquote\<close> on a double-quoted literal, which is how the compiler reads an
  interpreted string literal. \<open>UnquoteChar\<close> returns the value, whether it is a multibyte
  rune, and the rest of the input; None is \<open>ErrSyntax\<close>. The shortcut of the library for
  literals without escapes, and the raw and single-quoted forms, are left out.
\<close>

definition unhex :: "char \<Rightarrow> nat option" where
  "unhex c =
     (let b = (of_char c :: nat) in
      if 0x30 \<le> b \<and> b \<le> 0x39 then Some (b - 0x30)
      else if 0x61 \<le> b \<and> b \<le> 0x66 then Some (b - 0x61 + 10)
      else if 0x41 \<le> b \<and> b \<le> 0x46 then Some (b - 0x41 + 10)
      else None)"

fun hexval :: "string \<Rightarrow> nat \<Rightarrow> nat option" where
  "hexval [] v = Some v"
| "hexval (c # cs) v = (case unhex c of None \<Rightarrow> None | Some x \<Rightarrow> hexval cs (v * 16 + x))"

fun octval :: "string \<Rightarrow> nat \<Rightarrow> nat option" where
  "octval [] v = Some v"
| "octval (c # cs) v =
     (let b = (of_char c :: nat) in
      if b < 0x30 \<or> 0x37 < b then None else octval cs (v * 8 + (b - 0x30)))"

definition UnquoteChar :: "string \<Rightarrow> (nat \<times> bool \<times> string) option" where
  "UnquoteChar s =
     (if length s = 0 then None
      else let c = s ! 0 in
        if c = dquote then None
        else if (of_char c :: nat) \<ge> 0x80
          then Some (fst (DecodeRuneInString s), True, drop (snd (DecodeRuneInString s)) s)
        else if c \<noteq> backslash then Some (of_char c, False, drop 1 s)
        else if length s \<le> 1 then None
        else let c = s ! 1; s = drop 2 s in
          if c = CHR ''a'' then Some (0x07, False, s)
          else if c = CHR ''b'' then Some (0x08, False, s)
          else if c = CHR ''f'' then Some (0x0C, False, s)
          else if c = CHR ''n'' then Some (0x0A, False, s)
          else if c = CHR ''r'' then Some (0x0D, False, s)
          else if c = CHR ''t'' then Some (0x09, False, s)
          else if c = CHR ''v'' then Some (0x0B, False, s)
          else if c = CHR ''x'' \<or> c = CHR ''u'' \<or> c = CHR ''U'' then
            (let n = (if c = CHR ''x'' then 2 else if c = CHR ''u'' then 4 else (8::nat)) in
             if length s < n then None
             else case hexval (take n s) 0 of
                 None \<Rightarrow> None
               | Some v \<Rightarrow>
                   if c = CHR ''x'' then Some (v, False, drop n s)
                   else if \<not> ValidRune v then None
                   else Some (v, True, drop n s))
          else if 0x30 \<le> (of_char c :: nat) \<and> (of_char c :: nat) \<le> 0x37 then
            (if length s < 2 then None
             else case octval (take 2 s) (of_char c - 0x30) of
                 None \<Rightarrow> None
               | Some v \<Rightarrow> if v > 255 then None else Some (v, False, drop 2 s))
          else if c = backslash then Some (of_char backslash, False, s)
          else if c = dquote then Some (of_char dquote, False, s)
          else None)"

function unquoteLoop :: "string \<Rightarrow> (string \<times> string) option" where
  "unquoteLoop inp =
     (if \<not> (length inp > 0 \<and> inp ! 0 \<noteq> dquote) then Some ([], inp)
      else case UnquoteChar inp of
          None \<Rightarrow> None
        | Some (r, multibyte, rem) \<Rightarrow>
            if inp ! 0 = newline then None
            else (case unquoteLoop rem of
                None \<Rightarrow> None
              | Some (buf, rest) \<Rightarrow>
                  Some ((if r < 0x80 \<or> \<not> multibyte then [char_of r] else AppendRune r) @ buf, rest)))"
  by pat_completeness auto
termination
proof (relation "measure length")
  show "wf (measure length)" by simp
next
  fix inp :: string and x2 r y multibyte rem
  assume a: "\<not> \<not> (0 < length inp \<and> inp ! 0 \<noteq> dquote)"
    and b: "UnquoteChar inp = Some x2" "(r, y) = x2" "(multibyte, rem) = y"
  from a obtain c cs where inp: "inp = c # cs" by (cases inp) auto
  have w: "1 \<le> snd (DecodeRuneInString inp)"
    using inp by (simp add: DecodeRuneInString_def Let_def)
  from b have "UnquoteChar inp = Some (r, multibyte, rem)" by simp
  then have "length rem < length inp"
    using w inp
    by (auto simp: UnquoteChar_def Let_def split: if_splits option.splits)
  then show "(rem, inp) \<in> measure length" by simp
qed

definition Unquote :: "string \<Rightarrow> string option" where
  "Unquote s =
     (if length s < 2 then None
      else if s ! 0 \<noteq> dquote then None
      else if dquote \<notin> set (drop 1 s) then None
      else case unquoteLoop (drop 1 s) of
          None \<Rightarrow> None
        | Some (buf, rest) \<Rightarrow>
            if \<not> (length rest > 0 \<and> rest ! 0 = dquote) then None
            else if drop 1 rest \<noteq> [] then None
            else Some buf)"

text \<open>The decimal text of an Int constant, which is what its \<open>String\<close> method returns.\<close>

fun FormatUint :: "nat \<Rightarrow> string" where
  "FormatUint n =
     (if n < 10 then [char_of (0x30 + n)]
      else FormatUint (n div 10) @ [char_of (0x30 + n mod 10)])"

definition FormatInt :: "int \<Rightarrow> string" where
  "FormatInt i = (if i < 0 then CHR ''-'' # FormatUint (nat (- i)) else FormatUint (nat i))"

text \<open>\<open>strings.Join\<close>.\<close>

fun Join :: "string list \<Rightarrow> string \<Rightarrow> string" where
  "Join [] sep = []"
| "Join [e] sep = e"
| "Join (e # e' # elems) sep = e @ sep @ Join (e' # elems) sep"

text \<open>
  \<open>filepath.Base\<close> where the separator is the slash and there is no volume name: the last
  element of the path, after the trailing slashes are dropped.
\<close>

definition Base :: "string \<Rightarrow> string" where
  "Base path =
     (if path = [] then ''.''
      else let path = rev (dropWhile (\<lambda>c. c = CHR ''/'') (rev path));
               path = rev (takeWhile (\<lambda>c. c \<noteq> CHR ''/'') (rev path))
        in if path = [] then ''/'' else path)"

text \<open>
  \<open>filepath.Join\<close> of a directory and a name. The library also cleans the result, which
  changes the text of a path and not the file it names.
\<close>

definition filepath_Join :: "string \<Rightarrow> string \<Rightarrow> string" where
  "filepath_Join dir name = dir @ ''/'' @ name"

subsection \<open>generateHelperProgram\<close>

text \<open>
  Of \<open>ir.Func\<close> the code reads the package path and the name of the symbol; the
  parameters and results of the signature are what the caller passes to
  \<open>allArgsConstant\<close> and what the call returns.
\<close>

record Func =
  PkgPath :: string
  Name :: string
  Params :: "Field list"
  Results :: "Field list"

text \<open>What a call of a Go function does: it panics or it returns a value.\<close>

datatype 'a Go = Panic | Return 'a

text \<open>
  One case of the switch on \<open>val.Kind()\<close>: the text appended to \<open>argExprs\<close>, or None
  in the default case, where the function returns the empty string.
\<close>

fun argExpr :: "(nat \<Rightarrow> bool) \<Rightarrow> Value \<Rightarrow> string option" where
  "argExpr tab (MakeString s) = Some (Quote tab s)"
| "argExpr tab (MakeInt i) = Some (FormatInt i)"
| "argExpr tab (MakeFloat t) = Some t"
| "argExpr tab (MakeBool b) = Some (if b then ''true'' else ''false'')"
| "argExpr tab MakeUnknown = None"
| "argExpr tab (MakeComplex t) = None"

fun argLoop :: "(nat \<Rightarrow> bool) \<Rightarrow> Node list \<Rightarrow> string list \<Rightarrow> string list option Go" where
  "argLoop tab [] argExprs = Return (Some argExprs)"
| "argLoop tab (arg # args) argExprs =
     (case Val arg of
        None \<Rightarrow> Panic
      | Some val \<Rightarrow>
         (case argExpr tab val of
            None \<Rightarrow> Return None
          | Some e \<Rightarrow> argLoop tab args (argExprs @ [e])))"

definition programText :: "string \<Rightarrow> string \<Rightarrow> string list \<Rightarrow> string" where
  "programText pkgPath funcName argExprs =
     ''package main'' @ [newline, newline] @
     ''import '' @ [dquote] @ pkgPath @ [dquote, newline] @
     ''import '' @ [dquote] @ ''fmt'' @ [dquote, newline, newline] @
     ''func main() {'' @ [newline] @
     [CHR 0x09] @ ''result := '' @ Base pkgPath @ ''.'' @ funcName @ ''('' @ Join argExprs '', '' @ '')'' @ [newline] @
     [CHR 0x09] @ ''fmt.Print(result)'' @ [newline] @
     ''}'' @ [newline]"

definition generateHelperProgram :: "(nat \<Rightarrow> bool) \<Rightarrow> Func \<Rightarrow> Node list \<Rightarrow> string Go" where
  "generateHelperProgram tab fn args =
     (let pkgPath = PkgPath fn; funcName = Name fn in
      case argLoop tab args [] of
        Panic \<Rightarrow> Panic
      | Return None \<Rightarrow> Return []
      | Return (Some argExprs) \<Rightarrow> Return (programText pkgPath funcName argExprs))"

subsection \<open>The operating system\<close>

text \<open>
  Modelled from the spec: the packages os and os/exec are not under src/. The environment of
  a process is a list of entries \<open>key=value\<close>. \<open>Getenv\<close> reads the first entry of a key
  and gives the empty string for a key that is not set. A child process started with the
  environment \<open>Env\<close> sees, for each key, the last entry of that list (\<open>dedupEnv\<close>).
\<close>

definition envKey :: "string \<Rightarrow> string" where
  "envKey kv = takeWhile (\<lambda>c. c \<noteq> CHR ''='') kv"

definition envValue :: "string \<Rightarrow> string" where
  "envValue kv = drop 1 (dropWhile (\<lambda>c. c \<noteq> CHR ''='') kv)"

fun Getenv :: "string list \<Rightarrow> string \<Rightarrow> string" where
  "Getenv [] key = []"
| "Getenv (kv # env) key =
     (if CHR ''='' \<in> set kv \<and> envKey kv = key then envValue kv else Getenv env key)"

fun dedupRev :: "string list \<Rightarrow> string list \<Rightarrow> string list" where
  "dedupRev [] saw = []"
| "dedupRev (kv # env) saw =
     (if CHR ''='' \<notin> set kv then (if kv \<noteq> [] then kv # dedupRev env saw else dedupRev env saw)
      else if envKey kv \<in> set saw then dedupRev env saw
      else kv # dedupRev env (envKey kv # saw))"

definition dedupEnv :: "string list \<Rightarrow> string list" where
  "dedupEnv env = rev (dedupRev (rev env) [])"

text \<open>
  The file system: the directories and the files (with their content) that exist.
  \<open>RemoveAll\<close> removes a path and everything below it.
\<close>

record FS =
  dirs :: "string set"
  files :: "string \<rightharpoonup> string"

definition below :: "string \<Rightarrow> string \<Rightarrow> bool" where
  "below dir p = (p = dir \<or> take (length dir + 1) p = dir @ ''/'')"

definition Mkdir :: "string \<Rightarrow> FS \<Rightarrow> FS" where
  "Mkdir dir f = f\<lparr>dirs := insert dir (dirs f)\<rparr>"

definition Write :: "string \<Rightarrow> string \<Rightarrow> FS \<Rightarrow> FS" where
  "Write name content f = f\<lparr>files := (files f)(name \<mapsto> content)\<rparr>"

definition RemoveAll :: "string \<Rightarrow> FS \<Rightarrow> FS" where
  "RemoveAll dir f =
     \<lparr>dirs = {p \<in> dirs f. \<not> below dir p},
      files = (\<lambda>p. if below dir p then None else files f p)\<rparr>"

text \<open>
  A command as \<open>exec.Command\<close> builds it, with the environment the code sets, and what
  \<open>cmd.Run\<close> reports: the process could not be started, or it exited with a status,
  having written to standard output and standard error.
\<close>

record Cmd =
  Path :: string
  Args :: "string list"
  Env :: "string list"

datatype RunResult = SpawnError | Exited nat string string

text \<open>
  What the operating system answers during one attempt: \<open>MkdirTemp\<close> fails (None) or
  names the new directory, \<open>WriteFile\<close> says whether the file could be written,
  \<open>Stat\<close> whether a path exists, and \<open>Run\<close> is the toolchain, an opaque service that
  is given the file system and the command.
\<close>

record OS =
  MkdirTemp :: "string option"
  WriteFile :: "string \<Rightarrow> bool"
  Stat :: "string \<Rightarrow> bool"
  Run :: "FS \<Rightarrow> Cmd \<Rightarrow> RunResult"

text \<open>
  The state of the compiler process: its environment, \<open>buildcfg.GOROOT\<close>,
  \<open>base.Flag.LowerM\<close>, \<open>base.Pos\<close>, the file system, the diagnostics printed so far
  (one entry for each \<open>fmt.Printf\<close>) and the commands handed to \<open>cmd.Run\<close> so far.
\<close>

datatype Trace =
    Attempting Func
  | FailedGenerate
  | Generated string
  | HelperError string
  | FailedExecute
  | Evaluated Func string

record World =
  Environ :: "string list"
  GOROOT :: string
  LowerM :: int
  BasePos :: nat
  fs :: FS
  printed :: "Trace list"
  started :: "Cmd list"

definition Printf :: "Trace \<Rightarrow> World \<Rightarrow> World" where
  "Printf t w = w\<lparr>printed := printed w @ [t]\<rparr>"

subsection \<open>executeHelperProgram\<close>

definition goBinary :: "OS \<Rightarrow> World \<Rightarrow> string" where
  "goBinary os w =
     (if GOROOT w \<noteq> [] then
        (let goBin = filepath_Join (filepath_Join (GOROOT w) ''bin'') ''go'' in
         if \<not> Stat os goBin then ''go'' else goBin)
      else ''go'')"

definition childEnv :: "World \<Rightarrow> string list" where
  "childEnv w =
     (let env = Environ w;
          env = (if GOROOT w \<noteq> [] then env @ [''GOROOT='' @ GOROOT w] else env)
      in env @ [''GO_PURE_EVAL_HELPER=1''])"

text \<open>\<open>exec.Command\<close>: the program, its arguments after its own name, no environment yet.\<close>

definition Command :: "string \<Rightarrow> string list \<Rightarrow> Cmd" where
  "Command name arg = \<lparr>Path = name, Args = name # arg, Env = []\<rparr>"

text \<open>The body of \<open>executeHelperProgram\<close> after the deferred \<open>RemoveAll\<close> is registered.\<close>

definition runHelper :: "OS \<Rightarrow> World \<Rightarrow> string \<Rightarrow> string \<Rightarrow> string \<times> World" where
  "runHelper os w tmpDir source =
     (let mainFile = filepath_Join tmpDir ''main.go'' in
      if \<not> WriteFile os mainFile then ([], w)
      else
        let w = w\<lparr>fs := Write mainFile source (fs w)\<rparr>;
            goBin = goBinary os w;
            cmd = Command goBin [''run'', mainFile];
            cmd = cmd\<lparr>Env := childEnv w\<rparr>;
            w = w\<lparr>started := started w @ [cmd]\<rparr>
        in case Run os (fs w) cmd of
             SpawnError \<Rightarrow> ([], if LowerM w > 1 then Printf (HelperError []) w else w)
           | Exited status stdout stderr \<Rightarrow>
               if status \<noteq> 0 then ([], if LowerM w > 1 then Printf (HelperError stderr) w else w)
               else (stdout, w))"

definition executeHelperProgram :: "OS \<Rightarrow> World \<Rightarrow> string \<Rightarrow> string \<times> World" where
  "executeHelperProgram os w source =
     (case MkdirTemp os of
        None \<Rightarrow> ([], w)
      | Some tmpDir \<Rightarrow>
          let w = w\<lparr>fs := Mkdir tmpDir (fs w)\<rparr>;
              (result, w) = runHelper os w tmpDir source
          in (result, w\<lparr>fs := RemoveAll tmpDir (fs w)\<rparr>))"

subsection \<open>evaluatePureFunctionAtCompileTime\<close>

definition Types_TSTRING :: Type where
  "Types_TSTRING = TSTRING"

text \<open>\<open>ir.NewString\<close> followed by \<open>SetType\<close> and \<open>SetTypecheck\<close>.\<close>

definition NewString :: "nat \<Rightarrow> string \<Rightarrow> Node" where
  "NewString pos s = \<lparr>Op = OLITERAL, Pos = pos, Lit = MakeString s, NType = Types_TSTRING, Typecheck = 0\<rparr>"

definition evaluatePureFunctionAtCompileTime ::
  "(nat \<Rightarrow> bool) \<Rightarrow> OS \<Rightarrow> World \<Rightarrow> Func \<Rightarrow> Node list \<Rightarrow> Node option Go \<times> World" where
  "evaluatePureFunctionAtCompileTime tab os w fn args =
     (if Getenv (Environ w) ''GO_PURE_EVAL_HELPER'' \<noteq> [] then (Return None, w)
      else
        let w = (if LowerM w > 1 then Printf (Attempting fn) w else w) in
        case generateHelperProgram tab fn args of
          Panic \<Rightarrow> (Panic, w)
        | Return programSource \<Rightarrow>
            if programSource = [] then
              (Return None, if LowerM w > 1 then Printf FailedGenerate w else w)
            else
              let w = (if LowerM w > 1 then Printf (Generated programSource) w else w);
                  (result, w) = executeHelperProgram os w programSource
              in if result = [] then
                   (Return None, if LowerM w > 1 then Printf FailedExecute w else w)
                 else
                   let w = (if LowerM w > 0 then Printf (Evaluated fn result) w else w);
                       s = NewString (BasePos w) result;
                       s = s\<lparr>NType := Types_TSTRING\<rparr>;
                       s = s\<lparr>Typecheck := 1\<rparr>
                   in (Return (Some s), w))"

subsection \<open>The vocabulary of the specification\<close>

text \<open>
  The kinds of literal the specification supports, and the kind of literal a parameter
  type calls for; None for a type that is neither string, integer, float nor boolean.
\<close>

definition supported :: "ConstKind \<Rightarrow> bool" where
  "supported k = (k = StringKind \<or> k = IntKind \<or> k = FloatKind \<or> k = BoolKind)"

definition paramKind :: "Type \<Rightarrow> ConstKind option" where
  "paramKind t =
     (if IsString t then Some StringKind
      else if IsInteger t then Some IntKind
      else if IsFloat t then Some FloatKind
      else if IsBoolean t then Some BoolKind
      else None)"

definition unclassed :: "Type \<Rightarrow> bool" where
  "unclassed t = (\<not> IsString t \<and> \<not> IsInteger t \<and> \<not> IsFloat t \<and> \<not> IsBoolean t)"

text \<open>
  Eligibility in the specification's words: as many arguments as parameters, every
  argument a literal of a supported kind, and that kind exactly the kind of its parameter.
\<close>

definition spec_eligible :: "Node list \<Rightarrow> Field list \<Rightarrow> bool" where
  "spec_eligible args paramTypes =
     list_all2 (\<lambda>arg param. Op arg = OLITERAL \<and> supported (Kind (Lit arg)) \<and>
                  paramKind (Type param) = Some (Kind (Lit arg))) args paramTypes"

text \<open>
  Eligibility as the code decides it: the kind is compared with the parameter's only where
  the parameter type has one.
\<close>

definition eligible :: "Node list \<Rightarrow> Field list \<Rightarrow> bool" where
  "eligible args paramTypes =
     list_all2 (\<lambda>arg param. Op arg = OLITERAL \<and> supported (Kind (Lit arg)) \<and>
                  (paramKind (Type param) = None \<or> paramKind (Type param) = Some (Kind (Lit arg))))
       args paramTypes"

text \<open>A literal argument node holding the constant \<open>v\<close>.\<close>

definition literal :: "Value \<Rightarrow> Node" where
  "literal v = \<lparr>Op = OLITERAL, Pos = 0, Lit = v, NType = TSTRING, Typecheck = 1\<rparr>"

text \<open>
  The state in which the code runs the helper: the file system after the scratch directory
  is made and the program written, the command it builds, what the toolchain answers to
  it, and the node the code makes of a captured output.
\<close>

definition helperCmd :: "OS \<Rightarrow> World \<Rightarrow> string \<Rightarrow> Cmd" where
  "helperCmd os w tmpDir =
     \<lparr>Path = goBinary os w, Args = [goBinary os w, ''run'', filepath_Join tmpDir ''main.go''],
      Env = childEnv w\<rparr>"

definition helperFS :: "World \<Rightarrow> string \<Rightarrow> string \<Rightarrow> FS" where
  "helperFS w tmpDir source = Write (filepath_Join tmpDir ''main.go'') source (Mkdir tmpDir (fs w))"

definition helperRun :: "OS \<Rightarrow> World \<Rightarrow> string \<Rightarrow> string \<Rightarrow> RunResult" where
  "helperRun os w tmpDir source = Run os (helperFS w tmpDir source) (helperCmd os w tmpDir)"

definition materialized :: "World \<Rightarrow> string \<Rightarrow> Node" where
  "materialized w result =
     \<lparr>Op = OLITERAL, Pos = BasePos w, Lit = MakeString result, NType = TSTRING, Typecheck = 1\<rparr>"

text \<open>
  Whether the type of the node agrees with the static return type of the call: the
  function has one result, of that type.
\<close>

definition matchesReturnType :: "Func \<Rightarrow> Node \<Rightarrow> bool" where
  "matchesReturnType fn n = (map Type (Results fn) = [NType n])"

text \<open>
  The value a call of a pure function returns when the program runs, and the text
  \<open>fmt.Print\<close> writes for it; \<open>constantOf\<close> reads a literal node as such a value.
\<close>

datatype Result = StringResult string | IntResult int | BoolResult bool

fun Print :: "Result \<Rightarrow> string" where
  "Print (StringResult s) = s"
| "Print (IntResult i) = FormatInt i"
| "Print (BoolResult b) = (if b then ''true'' else ''false'')"

fun constantOf :: "Node \<Rightarrow> Result option" where
  "constantOf n =
     (if Op n \<noteq> OLITERAL then None
      else case Lit n of
          MakeString s \<Rightarrow> Some (StringResult s)
        | MakeInt i \<Rightarrow> Some (IntResult i)
        | MakeBool b \<Rightarrow> Some (BoolResult b)
        | _ \<Rightarrow> None)"

subsection \<open>Examples\<close>

text \<open>
  Functions marked pure, with what a call of them returns: \<open>strings.ToLower\<close> (on ASCII
  letters), an addition of two integers, and a test for the empty string.
\<close>

definition ToLower :: Func where
  "ToLower = \<lparr>PkgPath = ''strings'', Name = ''ToLower'',
              Params = [\<lparr>Type = TSTRING\<rparr>], Results = [\<lparr>Type = TSTRING\<rparr>]\<rparr>"

definition lowerFold :: "Value list \<Rightarrow> Result" where
  "lowerFold vals =
     (case vals of
        [MakeString s] \<Rightarrow>
          StringResult (map (\<lambda>c. if 0x41 \<le> (of_char c :: nat) \<and> (of_char c :: nat) \<le> 0x5A
                                  then char_of ((of_char c :: nat) + 0x20) else c) s)
      | _ \<Rightarrow> StringResult [])"

definition addPure :: Func where
  "addPure = \<lparr>PkgPath = ''example/arith'', Name = ''AddPure'',
              Params = [\<lparr>Type = TINT\<rparr>, \<lparr>Type = TINT\<rparr>], Results = [\<lparr>Type = TINT\<rparr>]\<rparr>"

definition sum2 :: "Value list \<Rightarrow> Result" where
  "sum2 vals = (case vals of [MakeInt a, MakeInt b] \<Rightarrow> IntResult (a + b) | _ \<Rightarrow> IntResult 0)"

definition isEmpty :: Func where
  "isEmpty = \<lparr>PkgPath = ''example/text'', Name = ''IsEmpty'',
              Params = [\<lparr>Type = TSTRING\<rparr>], Results = [\<lparr>Type = TBOOL\<rparr>]\<rparr>"

text \<open>
  A compiler process with the given environment and nothing on disk but \<open>/tmp\<close>; an
  operating system where the scratch directory can be made and written, the toolchain of
  \<open>GOROOT\<close> is absent, and every run of \<open>go\<close> gives the same answer; printability
  tables that hold no rune.
\<close>

definition host :: "string list \<Rightarrow> World" where
  "host env =
     \<lparr>Environ = env, GOROOT = ''/usr/local/go'', LowerM = 0, BasePos = 7,
      fs = \<lparr>dirs = {''/tmp''}, files = Map.empty\<rparr>, printed = [], started = []\<rparr>"

definition toolchain :: "RunResult \<Rightarrow> OS" where
  "toolchain answer =
     \<lparr>MkdirTemp = Some ''/tmp/go-pure-eval-1'', WriteFile = (\<lambda>name. True),
      Stat = (\<lambda>name. False), Run = (\<lambda>f cmd. answer)\<rparr>"

definition noTable :: "nat \<Rightarrow> bool" where
  "noTable r = False"

(*DEFS-END*)

section \<open>Properties\<close>

subsection \<open>Evaluating characters\<close>

lemma char_of_nat_eval:
  "char_of (n::nat) = Char (odd n) (odd (n div 2)) (odd (n div 4)) (odd (n div 8))
                            (odd (n div 16)) (odd (n div 32)) (odd (n div 64)) (odd (n div 128))"
  by (simp add: char_of_def bit_iff_odd)

subsection \<open>allArgsConstant decides argument by argument\<close>

lemma argOK_iff:
  "argOK arg param \<longleftrightarrow>
     Op arg = OLITERAL \<and> supported (Kind (Lit arg)) \<and>
     (paramKind (Type param) = None \<or> paramKind (Type param) = Some (Kind (Lit arg)))"
  by (cases "Type param")
     (auto simp: argOK_def Let_def supported_def paramKind_def IsString_def IsInteger_def
        IsFloat_def IsBoolean_def)

lemma allArgsLoop_iff:
  "length args = length ps \<Longrightarrow> allArgsLoop args ps \<longleftrightarrow> list_all2 argOK args ps"
  by (induction args ps rule: allArgsLoop.induct) simp_all

lemma allArgsConstant_iff: "allArgsConstant args ps \<longleftrightarrow> list_all2 argOK args ps"
  using allArgsLoop_iff [of args ps] list_all2_lengthD [of argOK args ps]
  by (auto simp: allArgsConstant_def)

lemma allArgsConstant_literals: "allArgsConstant args ps \<Longrightarrow> \<forall>a\<in>set args. Op a = OLITERAL"
  unfolding allArgsConstant_iff
  by (induction args ps rule: list_all2_induct) (auto simp: argOK_iff)

lemma allArgsConstant_supported:
  "allArgsConstant args ps \<Longrightarrow> \<forall>a\<in>set args. supported (Kind (Lit a))"
  unfolding allArgsConstant_iff
  by (induction args ps rule: list_all2_induct) (auto simp: argOK_iff)

subsection \<open>The stages of an evaluation\<close>

lemma argExpr_None: "argExpr tab v = None \<longleftrightarrow> \<not> supported (Kind v)"
  by (cases v) (simp_all add: supported_def)

lemma append_snoc_fun: "(@) (acc @ [e]) = (\<lambda>x. acc @ e # x)"
  by (simp add: fun_eq_iff)

lemma argLoop_literals:
  "\<forall>a\<in>set args. Op a = OLITERAL \<Longrightarrow>
   argLoop tab args acc =
     Return (map_option (\<lambda>es. acc @ es) (those (map (\<lambda>a. argExpr tab (Lit a)) args)))"
proof (induction args arbitrary: acc)
  case Nil
  then show ?case by simp
next
  case (Cons a args)
  then show ?case
    by (cases "argExpr tab (Lit a)")
       (simp_all add: Val_def option.map_comp comp_def append_snoc_fun)
qed

lemma those_None: "those xs = None \<longleftrightarrow> None \<in> set xs"
  by (induction xs) (auto split: option.splits)

lemma those_Some: "None \<notin> set xs \<Longrightarrow> those xs = Some (map the xs)"
proof (induction xs)
  case (Cons a xs)
  then show ?case by (cases a) simp_all
qed simp

lemma programText_nonempty: "programText p f es \<noteq> []"
  by (simp add: programText_def)

lemma generateHelperProgram_literals:
  "\<forall>a\<in>set args. Op a = OLITERAL \<Longrightarrow>
   generateHelperProgram tab fn args =
     Return (case those (map (\<lambda>a. argExpr tab (Lit a)) args) of
               None \<Rightarrow> []
             | Some argExprs \<Rightarrow> programText (PkgPath fn) (Name fn) argExprs)"
  by (simp add: generateHelperProgram_def argLoop_literals split: option.splits)

lemma generateHelperProgram_eligible:
  assumes "allArgsConstant args ps"
  shows "generateHelperProgram tab fn args =
           Return (programText (PkgPath fn) (Name fn) (map (\<lambda>a. the (argExpr tab (Lit a))) args))"
proof -
  have "None \<notin> set (map (\<lambda>a. argExpr tab (Lit a)) args)"
    using allArgsConstant_supported [OF assms] argExpr_None [of tab] by (auto simp: eq_commute [of None])
  then have "those (map (\<lambda>a. argExpr tab (Lit a)) args) = Some (map the (map (\<lambda>a. argExpr tab (Lit a)) args))"
    by (rule those_Some)
  then show ?thesis
    using allArgsConstant_literals [OF assms]
    by (simp add: generateHelperProgram_literals comp_def)
qed

lemma runHelper_fst:
  "fst (runHelper os w tmpDir source) =
     (if \<not> WriteFile os (filepath_Join tmpDir ''main.go'') then []
      else case Run os (Write (filepath_Join tmpDir ''main.go'') source (fs w)) (helperCmd os w tmpDir) of
             SpawnError \<Rightarrow> []
           | Exited status stdout stderr \<Rightarrow> (if status \<noteq> 0 then [] else stdout))"
  by (simp add: runHelper_def Let_def Command_def helperCmd_def goBinary_def childEnv_def
      split: RunResult.splits)

lemma helperCmd_fs [simp]: "helperCmd os (w\<lparr>fs := f\<rparr>) d = helperCmd os w d"
  by (simp add: helperCmd_def goBinary_def childEnv_def)

lemma helperCmd_printed [simp]: "helperCmd os (w\<lparr>printed := f\<rparr>) d = helperCmd os w d"
  by (simp add: helperCmd_def goBinary_def childEnv_def)

lemma helperRun_printed [simp]: "helperRun os (w\<lparr>printed := f\<rparr>) d src = helperRun os w d src"
  by (simp add: helperRun_def helperFS_def)

lemma executeHelperProgram_fst:
  "fst (executeHelperProgram os w source) =
     (case MkdirTemp os of
        None \<Rightarrow> []
      | Some tmpDir \<Rightarrow>
          if \<not> WriteFile os (filepath_Join tmpDir ''main.go'') then []
          else (case helperRun os w tmpDir source of
                 SpawnError \<Rightarrow> []
               | Exited status stdout stderr \<Rightarrow> (if status \<noteq> 0 then [] else stdout)))"
  by (simp add: executeHelperProgram_def Let_def split_beta runHelper_fst helperRun_def helperFS_def
      split: option.splits)

lemma runHelper_frame [simp]:
  "Environ (snd (runHelper os w tmpDir source)) = Environ w"
  "GOROOT (snd (runHelper os w tmpDir source)) = GOROOT w"
  "LowerM (snd (runHelper os w tmpDir source)) = LowerM w"
  "BasePos (snd (runHelper os w tmpDir source)) = BasePos w"
  by (simp_all add: runHelper_def Let_def Printf_def split: RunResult.splits)

lemma executeHelperProgram_frame [simp]:
  "Environ (snd (executeHelperProgram os w source)) = Environ w"
  "GOROOT (snd (executeHelperProgram os w source)) = GOROOT w"
  "LowerM (snd (executeHelperProgram os w source)) = LowerM w"
  "BasePos (snd (executeHelperProgram os w source)) = BasePos w"
  by (simp_all add: executeHelperProgram_def Let_def split_beta split: option.splits)

lemma executeHelperProgram_Printf [simp]:
  "fst (executeHelperProgram os (Printf t w) source) = fst (executeHelperProgram os w source)"
  by (simp add: executeHelperProgram_fst Printf_def split: option.splits)

lemma Printf_frame [simp]:
  "Environ (Printf t w) = Environ w" "GOROOT (Printf t w) = GOROOT w"
  "LowerM (Printf t w) = LowerM w" "BasePos (Printf t w) = BasePos w" "fs (Printf t w) = fs w"
  "started (Printf t w) = started w"
  by (simp_all add: Printf_def)

lemma evaluate_fst:
  "fst (evaluatePureFunctionAtCompileTime tab os w fn args) =
     (if Getenv (Environ w) ''GO_PURE_EVAL_HELPER'' \<noteq> [] then Return None
      else case generateHelperProgram tab fn args of
          Panic \<Rightarrow> Panic
        | Return programSource \<Rightarrow>
            if programSource = [] then Return None
            else let result = fst (executeHelperProgram os w programSource) in
              if result = [] then Return None else Return (Some (materialized w result)))"
  by (simp add: evaluatePureFunctionAtCompileTime_def Let_def split_beta
       materialized_def NewString_def Types_TSTRING_def
      split: Go.splits)

lemma runHelper_started:
  "started (snd (runHelper os w d src)) =
     (if WriteFile os (filepath_Join d ''main.go'') then started w @ [helperCmd os w d] else started w)"
  by (simp add: runHelper_def Let_def Command_def helperCmd_def goBinary_def childEnv_def Printf_def
      split: RunResult.splits)

lemma executeHelperProgram_started:
  "started (snd (executeHelperProgram os w src)) =
     (case MkdirTemp os of None \<Rightarrow> started w
      | Some d \<Rightarrow> if WriteFile os (filepath_Join d ''main.go'') then started w @ [helperCmd os w d]
                  else started w)"
  by (simp add: executeHelperProgram_def Let_def split_beta runHelper_started split: option.splits)

lemma evaluate_guarded:
  "Getenv (Environ w) ''GO_PURE_EVAL_HELPER'' \<noteq> [] \<Longrightarrow>
   evaluatePureFunctionAtCompileTime tab os w fn args = (Return None, w)"
  by (simp add: evaluatePureFunctionAtCompileTime_def)

lemma evaluate_started:
  "cmd \<in> set (started (snd (evaluatePureFunctionAtCompileTime tab os w fn args))) \<Longrightarrow>
   cmd \<notin> set (started w) \<Longrightarrow> \<exists>d. cmd = helperCmd os w d"
  by (auto simp: evaluatePureFunctionAtCompileTime_def Let_def split_beta
        executeHelperProgram_started Printf_def
      split: if_splits Go.splits option.splits)

lemma runHelper_fs:
  "fs (snd (runHelper os w d src)) =
     (if WriteFile os (filepath_Join d ''main.go'') then Write (filepath_Join d ''main.go'') src (fs w)
      else fs w)"
  by (simp add: runHelper_def Let_def Printf_def split: RunResult.splits)

lemma executeHelperProgram_fs:
  "fs (snd (executeHelperProgram os w src)) =
     (case MkdirTemp os of None \<Rightarrow> fs w
      | Some d \<Rightarrow> RemoveAll d (if WriteFile os (filepath_Join d ''main.go'') then helperFS w d src
                                else Mkdir d (fs w)))"
  by (simp add: executeHelperProgram_def Let_def split_beta runHelper_fs helperFS_def split: option.splits)

lemma RemoveAll_gone:
  "below d p \<Longrightarrow> p \<notin> dirs (RemoveAll d f) \<and> files (RemoveAll d f) p = None"
  by (simp add: RemoveAll_def)

lemma evaluate_fs:
  "fs (snd (evaluatePureFunctionAtCompileTime tab os w fn args)) = fs w \<or>
   (\<exists>src. fs (snd (evaluatePureFunctionAtCompileTime tab os w fn args)) =
            fs (snd (executeHelperProgram os w src)))"
  by (auto simp: evaluatePureFunctionAtCompileTime_def Let_def split_beta executeHelperProgram_fs
        helperFS_def Printf_def
      split: Go.splits option.splits)

subsection \<open>The environment of the child process\<close>

lemma Getenv_append:
  "\<forall>kv\<in>set xs. CHR ''='' \<in> set kv \<longrightarrow> envKey kv \<noteq> key \<Longrightarrow> Getenv (xs @ ys) key = Getenv ys key"
  by (induction xs) auto

lemma dedupRev_keys:
  "kv \<in> set (dedupRev ys saw) \<Longrightarrow> CHR ''='' \<in> set kv \<Longrightarrow> envKey kv \<notin> set saw"
proof (induction ys arbitrary: saw)
  case Nil
  then show ?case by simp
next
  case (Cons a ys)
  show ?case
  proof (cases "kv \<in> set (dedupRev ys (envKey a # saw))")
    case True
    then have "envKey kv \<notin> set (envKey a # saw)" using Cons.IH Cons.prems(2) by blast
    then show ?thesis by simp
  next
    case False
    then show ?thesis
      using Cons by (auto split: if_splits)
  qed
qed

lemma dedupEnv_last:
  assumes "CHR ''='' \<in> set kv"
  shows "Getenv (dedupEnv (env @ [kv])) (envKey kv) = envValue kv"
proof -
  have "dedupEnv (env @ [kv]) = rev (dedupRev (rev env) [envKey kv]) @ [kv]"
    using assms by (simp add: dedupEnv_def)
  moreover have "\<forall>e\<in>set (rev (dedupRev (rev env) [envKey kv])). CHR ''='' \<in> set e \<longrightarrow> envKey e \<noteq> envKey kv"
    using dedupRev_keys [of _ "rev env" "[envKey kv]"] by auto
  ultimately show ?thesis
    using assms by (simp add: Getenv_append)
qed

lemma childEnv_guard:
  "Getenv (dedupEnv (childEnv w)) ''GO_PURE_EVAL_HELPER'' = ''1''"
proof -
  have k: "envKey ''GO_PURE_EVAL_HELPER=1'' = ''GO_PURE_EVAL_HELPER''"
    and v: "envValue ''GO_PURE_EVAL_HELPER=1'' = ''1''"
    by (simp_all add: envKey_def envValue_def)
  obtain env where "childEnv w = env @ [''GO_PURE_EVAL_HELPER=1'']"
    by (simp add: childEnv_def Let_def)
  then show ?thesis
    using dedupEnv_last [of "''GO_PURE_EVAL_HELPER=1''" env] k v by simp
qed

subsection \<open>Round trip (C1)\<close>

text \<open>
  C1, as stated: for every pure function and constant arguments that pass eligibility, the
  constant materialized by \<open>evaluatePureFunctionAtCompileTime\<close> equals the value of the
  call. It fails for \<open>AddPure(10, 20)\<close>: the call returns the integer 30, the helper
  prints 30, and the node is the string "30".
\<close>

theorem round_trip_counterexample:
  "allArgsConstant [literal (MakeInt 10), literal (MakeInt 20)] (Params addPure) \<and>
   sum2 (map Lit [literal (MakeInt 10), literal (MakeInt 20)]) = IntResult 30 \<and>
   Print (IntResult 30) = ''30'' \<and>
   fst (evaluatePureFunctionAtCompileTime noTable (toolchain (Exited 0 ''30'' [])) (host [])
          addPure [literal (MakeInt 10), literal (MakeInt 20)])
     = Return (Some (materialized (host []) ''30'')) \<and>
   constantOf (materialized (host []) ''30'') \<noteq> Some (IntResult 30)"
  by (simp add: evaluate_fst executeHelperProgram_fst generateHelperProgram_literals literal_def
      programText_nonempty host_def toolchain_def helperRun_def materialized_def addPure_def
      allArgsConstant_def argOK_def IsString_def IsInteger_def IsFloat_def IsBoolean_def sum2_def
      FormatInt_def char_of_nat_eval)

text \<open>
  C1, amended: for every pure function that returns a string, and constant arguments that
  pass eligibility, when the recursion guard is not set, the scratch file is written and
  the run of the helper exits with status 0 having printed the value of the call, and this
  value is not the empty string, the constant materialized by
  \<open>evaluatePureFunctionAtCompileTime\<close> is the value of the call (for a lowercase-folding
  function, "HELLO WORLD" materializes to "hello world").
\<close>

theorem round_trip:
  assumes "Getenv (Environ w) ''GO_PURE_EVAL_HELPER'' = []"
    and "allArgsConstant args (Params fn)"
    and "MkdirTemp os = Some d" and "WriteFile os (filepath_Join d ''main.go'')"
    and "generateHelperProgram tab fn args = Return src"
    and "helperRun os w d src = Exited 0 (Print (f (map Lit args))) stderr"
    and "f (map Lit args) = StringResult s" and "s \<noteq> []"
  shows "fst (evaluatePureFunctionAtCompileTime tab os w fn args) = Return (Some (materialized w s)) \<and>
         constantOf (materialized w s) = Some (f (map Lit args))"
proof -
  have "src \<noteq> []"
    using assms(5) generateHelperProgram_eligible [OF assms(2), of tab fn]
    by (auto simp: programText_nonempty)
  then have "fst (evaluatePureFunctionAtCompileTime tab os w fn args) = Return (Some (materialized w s))"
    using assms by (simp add: evaluate_fst executeHelperProgram_fst)
  then show ?thesis
    using assms(7) by (simp add: materialized_def)
qed

theorem round_trip_witness:
  "lowerFold (map Lit [literal (MakeString ''HELLO WORLD'')]) = StringResult ''hello world'' \<and>
   allArgsConstant [literal (MakeString ''HELLO WORLD'')] (Params ToLower) \<and>
   fst (evaluatePureFunctionAtCompileTime noTable (toolchain (Exited 0 ''hello world'' [])) (host [])
          ToLower [literal (MakeString ''HELLO WORLD'')])
     = Return (Some (materialized (host []) ''hello world'')) \<and>
   constantOf (materialized (host []) ''hello world'') = Some (StringResult ''hello world'')"
proof -
  let ?args = "[literal (MakeString ''HELLO WORLD'')]"
  let ?os = "toolchain (Exited 0 ''hello world'' [])"
  let ?src = "programText (PkgPath ToLower) (Name ToLower) (map (\<lambda>a. the (argExpr noTable (Lit a))) ?args)"
  have f: "lowerFold (map Lit ?args) = StringResult ''hello world''"
    by (simp add: lowerFold_def literal_def char_of_nat_eval)
  have h1: "Getenv (Environ (host [])) ''GO_PURE_EVAL_HELPER'' = []" by (simp add: host_def)
  have h2: "allArgsConstant ?args (Params ToLower)"
    by (simp add: allArgsConstant_def argOK_def literal_def ToLower_def IsString_def IsInteger_def
        IsFloat_def IsBoolean_def)
  have h3: "MkdirTemp ?os = Some ''/tmp/go-pure-eval-1''" by (simp add: toolchain_def)
  have h4: "WriteFile ?os (filepath_Join ''/tmp/go-pure-eval-1'' ''main.go'')" by (simp add: toolchain_def)
  have h5: "generateHelperProgram noTable ToLower ?args = Return ?src"
    using h2 by (rule generateHelperProgram_eligible)
  have h6: "helperRun ?os (host []) ''/tmp/go-pure-eval-1'' ?src
              = Exited 0 (Print (lowerFold (map Lit ?args))) []"
    unfolding f by (simp add: helperRun_def toolchain_def)
  have h8: "''hello world'' \<noteq> []" by simp
  show ?thesis
    using round_trip [where f = lowerFold, OF h1 h2 h3 h4 h5 h6 f h8] f h2 by simp
qed

subsection \<open>Recursion guard (C2)\<close>

text \<open>
  C2: when \<open>GO_PURE_EVAL_HELPER\<close> is set to a non-empty value in the current process,
  \<open>evaluatePureFunctionAtCompileTime\<close> returns nil at once: nothing is printed, no file
  is made and no command is started. Every command an evaluation starts carries the
  guard, so an evaluation in a process with that command's environment returns nil at
  once: running a synthesized program triggers no nested evaluation.
\<close>

theorem recursion_guard:
  "(Getenv (Environ w) ''GO_PURE_EVAL_HELPER'' \<noteq> [] \<longrightarrow>
      evaluatePureFunctionAtCompileTime tab os w fn args = (Return None, w)) \<and>
   (cmd \<in> set (started (snd (evaluatePureFunctionAtCompileTime tab os w fn args))) \<and>
    cmd \<notin> set (started w) \<and> Environ child = dedupEnv (Env cmd) \<longrightarrow>
      evaluatePureFunctionAtCompileTime tab' os' child fn' args' = (Return None, child))"
proof (intro conjI impI)
  assume "Getenv (Environ w) ''GO_PURE_EVAL_HELPER'' \<noteq> []"
  then show "evaluatePureFunctionAtCompileTime tab os w fn args = (Return None, w)"
    by (rule evaluate_guarded)
next
  assume a: "cmd \<in> set (started (snd (evaluatePureFunctionAtCompileTime tab os w fn args))) \<and>
    cmd \<notin> set (started w) \<and> Environ child = dedupEnv (Env cmd)"
  then obtain d where "cmd = helperCmd os w d"
    using evaluate_started by blast
  then have "Env cmd = childEnv w" by (simp add: helperCmd_def)
  with a have "Getenv (Environ child) ''GO_PURE_EVAL_HELPER'' = ''1''"
    by (simp add: childEnv_guard)
  then show "evaluatePureFunctionAtCompileTime tab' os' child fn' args' = (Return None, child)"
    by (simp add: evaluate_guarded)
qed

theorem recursion_guard_witness:
  "Getenv (Environ (host [''GO_PURE_EVAL_HELPER=1''])) ''GO_PURE_EVAL_HELPER'' \<noteq> [] \<and>
   evaluatePureFunctionAtCompileTime noTable (toolchain SpawnError) (host [''GO_PURE_EVAL_HELPER=1''])
     ToLower [literal (MakeString ''HELLO'')] = (Return None, host [''GO_PURE_EVAL_HELPER=1'']) \<and>
   helperCmd (toolchain SpawnError) (host [''HOME=/root'']) ''/tmp/go-pure-eval-1''
     \<in> set (started (snd (evaluatePureFunctionAtCompileTime noTable (toolchain SpawnError)
           (host [''HOME=/root'']) ToLower [literal (MakeBool True)]))) \<and>
   helperCmd (toolchain SpawnError) (host [''HOME=/root'']) ''/tmp/go-pure-eval-1''
     \<notin> set (started (host [''HOME=/root''])) \<and>
   evaluatePureFunctionAtCompileTime noTable (toolchain SpawnError)
     (host (dedupEnv (Env (helperCmd (toolchain SpawnError) (host [''HOME=/root'']) ''/tmp/go-pure-eval-1''))))
     ToLower [literal (MakeString ''HELLO'')]
   = (Return None,
      host (dedupEnv (Env (helperCmd (toolchain SpawnError) (host [''HOME=/root'']) ''/tmp/go-pure-eval-1''))))"
proof -
  let ?c = "helperCmd (toolchain SpawnError) (host [''HOME=/root'']) ''/tmp/go-pure-eval-1''"
  have g: "Getenv (Environ (host [''GO_PURE_EVAL_HELPER=1''])) ''GO_PURE_EVAL_HELPER'' \<noteq> []"
    by (simp add: host_def envKey_def envValue_def)
  have s: "?c \<in> set (started (snd (evaluatePureFunctionAtCompileTime noTable (toolchain SpawnError)
           (host [''HOME=/root'']) ToLower [literal (MakeBool True)])))"
    by (simp add: evaluatePureFunctionAtCompileTime_def Let_def split_beta
        executeHelperProgram_started generateHelperProgram_literals literal_def programText_nonempty
        host_def toolchain_def envKey_def)
  have n: "?c \<notin> set (started (host [''HOME=/root'']))" by (simp add: host_def)
  have e: "Environ (host (dedupEnv (Env ?c))) = dedupEnv (Env ?c)" by (simp add: host_def)
  show ?thesis
    using g s n
      recursion_guard [where w = "host [''GO_PURE_EVAL_HELPER=1'']" and tab = noTable
        and os = "toolchain SpawnError" and fn = ToLower and args = "[literal (MakeString ''HELLO'')]"]
      recursion_guard [where w = "host [''HOME=/root'']" and cmd = ?c and tab = noTable
        and os = "toolchain SpawnError" and fn = ToLower and args = "[literal (MakeBool True)]"
        and child = "host (dedupEnv (Env ?c))" and tab' = noTable and os' = "toolchain SpawnError"
        and fn' = ToLower and args' = "[literal (MakeString ''HELLO'')]"]
      e
    by blast
qed

subsection \<open>Eligibility (C3, C10)\<close>

text \<open>
  C3, as stated: \<open>allArgsConstant\<close> returns true if and only if the call is eligible in the
  specification's words. It fails for the integer literal 1 passed to a parameter of
  pointer type: the code accepts it, and the kinds do not match.
\<close>

theorem allArgsConstant_not_exact_counterexample:
  "allArgsConstant [literal (MakeInt 1)] [\<lparr>Type = TPTR\<rparr>] \<and>
   \<not> spec_eligible [literal (MakeInt 1)] [\<lparr>Type = TPTR\<rparr>]"
  by (simp add: allArgsConstant_def argOK_def literal_def spec_eligible_def paramKind_def
      IsString_def IsInteger_def IsFloat_def IsBoolean_def)

text \<open>
  C3, amended: \<open>allArgsConstant\<close> returns true if and only if there are as many arguments
  as parameters and every argument is a literal (\<open>OLITERAL\<close>) of kind string, integer,
  float or boolean whose kind is the kind of its parameter whenever the parameter's type
  is a string, integer, float or boolean type; a parameter of any other type does not
  constrain the kind. Every other call yields false, never an error.
\<close>

theorem allArgsConstant_eligible:
  "allArgsConstant args paramTypes \<longleftrightarrow> eligible args paramTypes"
  unfolding allArgsConstant_iff eligible_def
  by (rule arg_cong [where f = "\<lambda>P. list_all2 P args paramTypes"])
     (auto simp: argOK_iff fun_eq_iff)

theorem allArgsConstant_eligible_witness:
  "allArgsConstant [literal (MakeString ''HELLO''), literal (MakeInt 42)]
     [\<lparr>Type = TSTRING\<rparr>, \<lparr>Type = TINT\<rparr>]
   \<and> \<not> allArgsConstant [literal (MakeInt 42)] [\<lparr>Type = TSTRING\<rparr>]"
  using allArgsConstant_eligible [of "[literal (MakeString ''HELLO''), literal (MakeInt 42)]"
      "[\<lparr>Type = TSTRING\<rparr>, \<lparr>Type = TINT\<rparr>]"]
    allArgsConstant_eligible [of "[literal (MakeInt 42)]" "[\<lparr>Type = TSTRING\<rparr>]"]
  by (simp add: eligible_def literal_def supported_def paramKind_def IsString_def IsInteger_def
      IsFloat_def IsBoolean_def)

text \<open>
  C10: the comparison of kinds constrains only a parameter whose type is a string, integer,
  float or boolean type. For a parameter of any other type the argument passes as soon as
  it is a literal of a supported kind; so a call whose arguments are all such literals,
  each of the kind of its parameter or with a parameter of another type, makes
  \<open>allArgsConstant\<close> return true.
\<close>

theorem allArgsConstant_unclassed:
  "(unclassed (Type param) \<longrightarrow>
      argOK arg param = (Op arg = OLITERAL \<and> supported (Kind (Lit arg)))) \<and>
   (list_all2 (\<lambda>arg param. Op arg = OLITERAL \<and> supported (Kind (Lit arg)) \<and>
        (unclassed (Type param) \<or> paramKind (Type param) = Some (Kind (Lit arg))))
      args paramTypes
    \<longrightarrow> allArgsConstant args paramTypes)"
proof -
  have u: "unclassed t \<longleftrightarrow> paramKind t = None" for t
    by (simp add: unclassed_def paramKind_def)
  show ?thesis
    unfolding allArgsConstant_iff
    by (auto simp: argOK_iff u elim!: list_all2_mono)
qed

theorem allArgsConstant_unclassed_witness:
  "unclassed TINTER \<and> argOK (literal (MakeString ''x'')) \<lparr>Type = TINTER\<rparr> \<and>
   allArgsConstant [literal (MakeString ''x''), literal (MakeBool True)]
     [\<lparr>Type = TINTER\<rparr>, \<lparr>Type = TBOOL\<rparr>]"
  using allArgsConstant_unclassed [of "\<lparr>Type = TINTER\<rparr>" "literal (MakeString ''x'')"
      "[literal (MakeString ''x''), literal (MakeBool True)]"
      "[\<lparr>Type = TINTER\<rparr>, \<lparr>Type = TBOOL\<rparr>]"]
  by (simp add: unclassed_def literal_def supported_def paramKind_def IsString_def
      IsInteger_def IsFloat_def IsBoolean_def)

subsection \<open>Failure fallback (C4)\<close>

text \<open>
  C4: on literal arguments, if the helper program cannot be generated, the scratch
  directory or file cannot be made, the child process fails to start, exits with a
  non-zero status, or leaves standard output empty, then
  \<open>evaluatePureFunctionAtCompileTime\<close> returns nil; it does not panic, and empty output
  counts as a failure.
\<close>

theorem failure_fallback:
  assumes "\<forall>a\<in>set args. Op a = OLITERAL"
    and "generateHelperProgram tab fn args = Return []
       \<or> MkdirTemp os = None
       \<or> (\<exists>d. MkdirTemp os = Some d \<and> \<not> WriteFile os (filepath_Join d ''main.go''))
       \<or> (\<exists>d src. MkdirTemp os = Some d \<and> generateHelperProgram tab fn args = Return src \<and>
             (helperRun os w d src = SpawnError \<or>
              (\<exists>status stdout stderr. helperRun os w d src = Exited status stdout stderr \<and>
                  (status \<noteq> 0 \<or> stdout = []))))"
  shows "fst (evaluatePureFunctionAtCompileTime tab os w fn args) = Return None"
  using assms(2)
  by (auto simp: evaluate_fst executeHelperProgram_fst Let_def generateHelperProgram_literals [OF assms(1)]
      split: option.splits RunResult.splits)

theorem failure_fallback_witness:
  "fst (evaluatePureFunctionAtCompileTime noTable (toolchain (Exited 0 [] [])) (host [])
          ToLower [literal (MakeString [])]) = Return None \<and>
   fst (evaluatePureFunctionAtCompileTime noTable (toolchain (Exited 1 ''x'' ''build failed'')) (host [])
          ToLower [literal (MakeString [])]) = Return None \<and>
   fst (evaluatePureFunctionAtCompileTime noTable (toolchain SpawnError) (host [])
          ToLower [literal (MakeString [])]) = Return None \<and>
   fst (evaluatePureFunctionAtCompileTime noTable (toolchain SpawnError) (host [])
          ToLower [literal MakeUnknown]) = Return None"
  using failure_fallback [of "[literal (MakeString [])]" noTable ToLower "toolchain (Exited 0 [] [])" "host []"]
    failure_fallback [of "[literal (MakeString [])]" noTable ToLower "toolchain (Exited 1 ''x'' ''build failed'')" "host []"]
    failure_fallback [of "[literal (MakeString [])]" noTable ToLower "toolchain SpawnError" "host []"]
    failure_fallback [of "[literal MakeUnknown]" noTable ToLower "toolchain SpawnError" "host []"]
  by (simp add: literal_def toolchain_def helperRun_def generateHelperProgram_literals)

subsection \<open>Workspace cleanup (C5)\<close>

text \<open>
  C5: whenever \<open>executeHelperProgram\<close> has made its scratch directory, neither the
  directory nor anything below it exists when the function returns, whatever the writing
  of the file and the run of the toolchain do; and after an evaluation attempt nothing
  exists below the scratch directory that did not exist before.
\<close>

theorem workspace_cleanup:
  "(MkdirTemp os = Some tmpDir \<and> below tmpDir p \<longrightarrow>
     p \<notin> dirs (fs (snd (executeHelperProgram os w source))) \<and>
     files (fs (snd (executeHelperProgram os w source))) p = None) \<and>
   (MkdirTemp os = Some tmpDir \<and> below tmpDir p \<and> p \<notin> dirs (fs w) \<and> files (fs w) p = None \<longrightarrow>
     p \<notin> dirs (fs (snd (evaluatePureFunctionAtCompileTime tab os w fn args))) \<and>
     files (fs (snd (evaluatePureFunctionAtCompileTime tab os w fn args))) p = None)"
  using evaluate_fs [of tab os w fn args]
  by (auto simp: executeHelperProgram_fs RemoveAll_gone)

theorem workspace_cleanup_witness:
  "MkdirTemp (toolchain SpawnError) = Some ''/tmp/go-pure-eval-1'' \<and>
   below ''/tmp/go-pure-eval-1'' ''/tmp/go-pure-eval-1/main.go'' \<and>
   ''/tmp/go-pure-eval-1/main.go'' \<notin> dirs (fs (host [])) \<and>
   files (fs (host [])) ''/tmp/go-pure-eval-1/main.go'' = None \<and>
   files (fs (snd (executeHelperProgram (toolchain SpawnError) (host []) ''package main'')))
     ''/tmp/go-pure-eval-1/main.go'' = None \<and>
   files (fs (snd (evaluatePureFunctionAtCompileTime noTable (toolchain SpawnError) (host []) ToLower
       [literal (MakeString ''HELLO'')]))) ''/tmp/go-pure-eval-1/main.go'' = None"
  using workspace_cleanup [of "toolchain SpawnError" "''/tmp/go-pure-eval-1''"
      "''/tmp/go-pure-eval-1/main.go''" "host []" "''package main''" noTable ToLower
      "[literal (MakeString ''HELLO'')]"]
  by (simp add: toolchain_def below_def host_def)

subsection \<open>The materialized constant (C8)\<close>

text \<open>
  C8, as stated: the node returned on success has the static return type of the call. It
  fails for a function that returns a boolean: the node is of type string.
\<close>

theorem materialized_type_counterexample:
  "fst (evaluatePureFunctionAtCompileTime noTable (toolchain (Exited 0 ''true'' [])) (host [])
          isEmpty [literal (MakeString [])])
     = Return (Some (materialized (host []) ''true'')) \<and>
   \<not> matchesReturnType isEmpty (materialized (host []) ''true'')"
  by (simp add: evaluate_fst executeHelperProgram_fst generateHelperProgram_literals literal_def
      programText_nonempty host_def toolchain_def helperRun_def matchesReturnType_def isEmpty_def
      materialized_def)

text \<open>
  C8, amended: whenever \<open>evaluatePureFunctionAtCompileTime\<close> succeeds, the node it
  returns is a literal holding a non-empty string, its type is the string type
  \<open>types.Types[TSTRING]\<close>, which matches the static return type of the call exactly
  when the function returns a string, its type-checked flag is 1, and its position is
  \<open>base.Pos\<close>, the position the compiler is at when the call is walked.
\<close>

theorem materialized_form:
  "fst (evaluatePureFunctionAtCompileTime tab os w fn args) = Return (Some n) \<longrightarrow>
     Op n = OLITERAL \<and> (\<exists>s. s \<noteq> [] \<and> Lit n = MakeString s) \<and> NType n = Types_TSTRING \<and>
     Typecheck n = 1 \<and> Pos n = BasePos w \<and>
     (matchesReturnType fn n \<longleftrightarrow> map Type (Results fn) = [TSTRING])"
  by (auto simp: evaluate_fst Let_def materialized_def Types_TSTRING_def matchesReturnType_def
      split: Go.splits if_splits)

theorem materialized_form_witness:
  "fst (evaluatePureFunctionAtCompileTime noTable (toolchain (Exited 0 ''hello'' [])) (host [])
          ToLower [literal (MakeString ''HELLO'')])
     = Return (Some (materialized (host []) ''hello'')) \<and>
   NType (materialized (host []) ''hello'') = Types_TSTRING \<and>
   Typecheck (materialized (host []) ''hello'') = 1 \<and>
   Pos (materialized (host []) ''hello'') = BasePos (host []) \<and>
   matchesReturnType ToLower (materialized (host []) ''hello'')"
proof -
  have "fst (evaluatePureFunctionAtCompileTime noTable (toolchain (Exited 0 ''hello'' [])) (host [])
          ToLower [literal (MakeString ''HELLO'')])
     = Return (Some (materialized (host []) ''hello''))"
    by (simp add: evaluate_fst executeHelperProgram_fst generateHelperProgram_literals literal_def
      programText_nonempty host_def toolchain_def helperRun_def)
  then show ?thesis
    using materialized_form [of noTable "toolchain (Exited 0 ''hello'' [])" "host []" ToLower
        "[literal (MakeString ''HELLO'')]" "materialized (host []) ''hello''"]
    by (simp add: ToLower_def)
qed

end
